theory Spec2Isabelle
  imports Main
begin

section \<open>Values exchanged between the agents and the dashboard\<close>

text \<open>
  Events, decisions and findings are JSON values on the wire, Python dicts in the agent
  harness and plain objects in the dashboard. An object keeps its keys in insertion order,
  so it is an association list. \<open>JNum\<close> is an integral number and \<open>JDec m k\<close> the decimal
  \<open>m / 10^k\<close> (the harness writes scores such as 9.8, which is \<open>JDec 98 1\<close>).
\<close>

datatype json =
    JNull
  | JBool bool
  | JNum int
  | JDec int nat
  | JStr string
  | JArr "json list"
  | JObj "(string \<times> json) list"

text \<open>JavaScript truthiness, as used by \<open>||\<close> and \<open>if\<close>; a missing property is \<open>undefined\<close>.\<close>

fun truthy :: "json option \<Rightarrow> bool" where
  "truthy None = False"
| "truthy (Some JNull) = False"
| "truthy (Some (JBool b)) = b"
| "truthy (Some (JNum n)) = (n \<noteq> 0)"
| "truthy (Some (JDec m k)) = (m \<noteq> 0)"
| "truthy (Some (JStr s)) = (s \<noteq> [])"
| "truthy (Some (JArr xs)) = True"
| "truthy (Some (JObj kvs)) = True"

text \<open>\<open>a || b\<close> on property reads.\<close>

definition js_or :: "json option \<Rightarrow> json option \<Rightarrow> json option" where
  "js_or a b = (if truthy a then a else b)"

text \<open>Decimal digits of a number, for template literals.\<close>

definition digit_char :: "nat \<Rightarrow> char" where
  "digit_char d = ''0123456789'' ! (d mod 10)"

fun show_nat_fuel :: "nat \<Rightarrow> nat \<Rightarrow> string" where
  "show_nat_fuel 0 n = [digit_char n]"
| "show_nat_fuel (Suc f) n =
     (if n < 10 then [digit_char n] else show_nat_fuel f (n div 10) @ [digit_char n])"

definition show_nat :: "nat \<Rightarrow> string" where
  "show_nat n = show_nat_fuel n n"

definition show_int :: "int \<Rightarrow> string" where
  "show_int i = (if i < 0 then ''-'' @ show_nat (nat (- i)) else show_nat (nat i))"

fun join_with :: "string \<Rightarrow> string list \<Rightarrow> string" where
  "join_with sep [] = []"
| "join_with sep [x] = x"
| "join_with sep (x # y # ys) = x @ sep @ join_with sep (y # ys)"

text \<open>
  String conversion of a template literal \<open>`${v}`\<close>. A decimal prints its integral part,
  a point and its \<open>k\<close> fraction digits.
\<close>

fun js_to_string :: "json \<Rightarrow> string" where
  "js_to_string JNull = ''null''"
| "js_to_string (JBool b) = (if b then ''true'' else ''false'')"
| "js_to_string (JNum n) = show_int n"
| "js_to_string (JDec m k) =
     (if m < 0 then ''-'' else []) @ show_nat (nat \<bar>m\<bar> div 10 ^ k) @ ''.'' @
     (let f = show_nat (nat \<bar>m\<bar> mod 10 ^ k) in replicate (k - length f) (CHR ''0'') @ f)"
| "js_to_string (JStr s) = s"
| "js_to_string (JArr xs) =
     join_with '','' (map (\<lambda>x. case x of JNull \<Rightarrow> [] | _ \<Rightarrow> js_to_string x) xs)"
| "js_to_string (JObj kvs) = ''[object Object]''"

definition template :: "json option \<Rightarrow> string" where
  "template v = (case v of None \<Rightarrow> ''undefined'' | Some x \<Rightarrow> js_to_string x)"

text \<open>Property read \<open>o.k\<close> on a value; only objects carry the properties read here.\<close>

fun jprop :: "json option \<Rightarrow> string \<Rightarrow> json option" where
  "jprop (Some (JObj kvs)) k = map_of kvs k"
| "jprop _ k = None"

text \<open>
  Writing a property (\<open>{...o, k: v}\<close>): an existing key keeps its place and takes the
  new value, a new key goes to the end.
\<close>

fun obj_set :: "string \<Rightarrow> json \<Rightarrow> (string \<times> json) list \<Rightarrow> (string \<times> json) list" where
  "obj_set k v [] = [(k, v)]"
| "obj_set k v ((k', v') # kvs) = (if k' = k then (k, v) # kvs else (k', v') # obj_set k v kvs)"

text \<open>Own enumerable properties copied by an object spread \<open>{...v}\<close>.\<close>

fun spread :: "json \<Rightarrow> (string \<times> json) list" where
  "spread (JObj kvs) = kvs"
| "spread (JStr s) = map (\<lambda>i. (show_nat i, JStr [s ! i])) [0..<length s]"
| "spread (JArr xs) = map (\<lambda>i. (show_nat i, xs ! i)) [0..<length xs]"
| "spread _ = []"

section \<open>The socket client of the dashboard (useWebSocket)\<close>

text \<open>
  The state shape and the event reducer of the WebSocket hook. The fields of
  \<open>AgentState\<close> have the types the interface declares; a value read from \<open>event.data\<close>
  into a field is taken when it has the field's type, and a value of another JSON type
  is read like a falsy one (the fallback of the \<open>||\<close> applies).
\<close>

record AgentEvent =
  ev_type :: string
  agentId :: int
  ev_role :: string
  scanId :: json
  data :: "(string \<times> json) list"
  timestamp :: json

datatype agent_status = Idle | Started | Thinking | Acting | Complete | Error

record AgentState =
  ag_id :: int
  ag_role :: string
  name :: string
  status :: agent_status
  iteration :: int
  totalIterations :: int
  currentAction :: string
  reasoning :: string
  screenshot :: string
  ag_findings :: "json list"

datatype scan_status = Running | Completed | Stopped | ScanError

record ScanWsState =
  connected :: bool
  scanStatus :: scan_status
  agents :: "int \<rightharpoonup> AgentState"
  events :: "AgentEvent list"
  findings :: "json list"
  networkRequests :: "json list"

definition AGENT_NAMES :: "string \<rightharpoonup> string" where
  "AGENT_NAMES = map_of
     [(''sqli'', ''SQL Injection''), (''xss'', ''XSS''), (''auth'', ''Auth Bypass''),
      (''idor'', ''IDOR''), (''csrf'', ''CSRF'')]"

definition default_agent :: "int \<times> string \<Rightarrow> AgentState" where
  "default_agent r =
     \<lparr> ag_id = fst r, ag_role = snd r,
       name = (case AGENT_NAMES (snd r) of Some n \<Rightarrow> if n = [] then snd r else n | None \<Rightarrow> snd r),
       status = Idle, iteration = 0, totalIterations = 20,
       currentAction = [], reasoning = [], screenshot = [], ag_findings = [] \<rparr>"

definition roles :: "(int \<times> string) list" where
  "roles = [(1, ''sqli''), (2, ''xss''), (3, ''auth''), (4, ''idor''), (5, ''csrf'')]"

definition defaultAgents :: "int \<rightharpoonup> AgentState" where
  "defaultAgents = fold (\<lambda>r m. m(fst r \<mapsto> default_agent r)) roles Map.empty"

definition initial_state :: ScanWsState where
  "initial_state =
     \<lparr> connected = False, scanStatus = Running, agents = defaultAgents,
       events = [], findings = [], networkRequests = [] \<rparr>"

text \<open>
  Typed reads of \<open>event.data?.k || fallback\<close>, for events whose fields have the types
  the harness gives them (a number is an integer there). Where an event carries a truthy
  value of another type, JavaScript would store that value; the model takes the fallback.
\<close>

definition str_or :: "json option \<Rightarrow> string \<Rightarrow> string" where
  "str_or v d = (case v of Some (JStr s) \<Rightarrow> if s = [] then d else s | _ \<Rightarrow> d)"

definition num_or :: "json option \<Rightarrow> int \<Rightarrow> int" where
  "num_or v d = (case v of Some (JNum n) \<Rightarrow> if n = 0 then d else n | _ \<Rightarrow> d)"

definition arr_or :: "json option \<Rightarrow> json list \<Rightarrow> json list" where
  "arr_or v d = (case v of Some (JArr xs) \<Rightarrow> xs | _ \<Rightarrow> d)"

text \<open>\<open>event.data?.vulnerability || event.data\<close>.\<close>

definition vuln_of :: "(string \<times> json) list \<Rightarrow> json" where
  "vuln_of d = (case map_of d ''vulnerability'' of
                  Some v \<Rightarrow> if truthy (Some v) then v else JObj d
                | None \<Rightarrow> JObj d)"

text \<open>The \<open>switch\<close> on the event type, as far as it writes the agent's own record.\<close>

definition update_agent :: "AgentEvent \<Rightarrow> AgentState \<Rightarrow> AgentState" where
  "update_agent event agent =
    (let d = Some (JObj (data event)); t = ev_type event in
     if t = ''agent.started'' then agent\<lparr>status := Started\<rparr>
     else if t = ''agent.thinking'' then
       agent\<lparr>status := Thinking, currentAction := str_or (jprop d ''status'') ''Thinking...''\<rparr>
     else if t = ''agent.thought'' then
       agent\<lparr>reasoning := str_or (jprop d ''thought'') []\<rparr>
     else if t = ''agent.decision'' then
       (let agent1 = agent\<lparr>status := Acting,
                              iteration := num_or (jprop d ''iteration'') (iteration agent)\<rparr>;
            dec = jprop d ''decision''
        in if truthy dec then
             agent1\<lparr>currentAction :=
                       template (jprop dec ''action'') @ '': '' @
                       template (js_or (js_or (jprop dec ''selector'') (jprop dec ''value''))
                                       (Some (JStr []))),
                     reasoning := str_or (jprop dec ''reasoning'') []\<rparr>
           else agent1)
     else if t = ''agent.action'' then
       agent\<lparr>status := Acting,
              currentAction :=
                template (jprop d ''action'') @ '': '' @
                template (js_or (jprop d ''selector'') (Some (JStr []))),
              reasoning := str_or (jprop d ''reasoning'') (reasoning agent)\<rparr>
     else if t = ''agent.iteration'' then
       agent\<lparr>iteration := num_or (jprop d ''iteration'') (iteration agent),
              totalIterations := num_or (jprop d ''total'') 10\<rparr>
     else if t = ''agent.screenshot'' then
       agent\<lparr>screenshot := str_or (jprop d ''screenshot'') []\<rparr>
     else if t = ''agent.complete'' then
       agent\<lparr>status := Complete, ag_findings := arr_or (jprop d ''findings'') []\<rparr>
     else if t = ''agent.error'' then
       agent\<lparr>status := Error,
              currentAction :=
                str_or (js_or (jprop d ''message'') (jprop d ''error'')) ''Error''\<rparr>
     else if t = ''vulnerability.found'' then
       agent\<lparr>ag_findings := ag_findings agent @ [vuln_of (data event)]\<rparr>
     else agent)"

text \<open>\<open>xs.slice(-100)\<close>: the last hundred elements.\<close>

definition slice_last :: "nat \<Rightarrow> 'a list \<Rightarrow> 'a list" where
  "slice_last n xs = drop (length xs - n) xs"

text \<open>The same \<open>switch\<close>, as far as it writes the shared lists of the state.\<close>

definition update_shared :: "AgentEvent \<Rightarrow> AgentState \<Rightarrow> ScanWsState \<Rightarrow> ScanWsState \<Rightarrow> ScanWsState" where
  "update_shared event agent prev nxt =
    (let d = Some (JObj (data event)); t = ev_type event in
     if t = ''vulnerability.found'' then
       nxt\<lparr>findings := findings prev @
               [JObj (obj_set ''role'' (JStr (ag_role agent))
                       (obj_set ''agentId'' (JNum (agentId event))
                         (spread (vuln_of (data event)))))]\<rparr>
     else if t = ''network.request'' then
       nxt\<lparr>networkRequests := slice_last 100 (networkRequests prev) @ [JObj (data event)]\<rparr>
     else nxt)"

definition handleEvent :: "AgentEvent \<Rightarrow> ScanWsState \<Rightarrow> ScanWsState" where
  "handleEvent event prev =
    (let next0 = prev\<lparr>events := events prev @ [event]\<rparr>;
         next1 =
           (if agentId event \<noteq> 0 then
              (case agents next0 (agentId event) of
                 None \<Rightarrow> next0
               | Some agent \<Rightarrow>
                   (let next' = update_shared event agent prev next0
                    in next'\<lparr>agents := (agents next')(agentId event \<mapsto> update_agent event agent)\<rparr>))
            else next0)
     in if ev_type event = ''scan.complete'' then next1\<lparr>scanStatus := Completed\<rparr>
        else if ev_type event = ''scan.stopped'' then next1\<lparr>scanStatus := Stopped\<rparr>
        else next1)"

text \<open>The handlers of the socket itself.\<close>

definition onopen :: "ScanWsState \<Rightarrow> ScanWsState" where
  "onopen prev = prev\<lparr>connected := True\<rparr>"

definition onerror :: "ScanWsState \<Rightarrow> ScanWsState" where
  "onerror prev = prev\<lparr>connected := False\<rparr>"

definition onclose :: "ScanWsState \<Rightarrow> ScanWsState" where
  "onclose prev = prev\<lparr>connected := False\<rparr>"

text \<open>The counter an agent panel prints: \<open>{agent.iteration}/{agent.totalIterations}\<close>.\<close>

definition iteration_counter :: "AgentState \<Rightarrow> string" where
  "iteration_counter agent = show_int (iteration agent) @ ''/'' @ show_int (totalIterations agent)"


section \<open>The live view fed by the database (RunDetails)\<close>

text \<open>
  The rows come from the tables \<open>security_runs\<close>, \<open>agent_sessions\<close>, \<open>run_events\<close> and
  \<open>findings\<close>. The page reads the identifier of a row and a few of its columns; the other
  columns travel unread and are kept as they arrive.
\<close>

record SecurityRun =
  run_id :: string
  run_target_url :: string
  run_cols :: "(string \<times> json) list"

record AgentSession =
  sess_id :: string
  sess_cols :: "(string \<times> json) list"

record RunEvent =
  message :: string
  re_data :: json
  re_cols :: "(string \<times> json) list"

record Finding =
  f_id :: string
  f_severity :: string
  f_cols :: "(string \<times> json) list"

record RunDetails =
  run :: "SecurityRun option"
  rd_sessions :: "AgentSession list"
  rd_events :: "RunEvent list"
  rd_findings :: "Finding list"

definition RunDetails_init :: RunDetails where
  "RunDetails_init = \<lparr> run = None, rd_sessions = [], rd_events = [], rd_findings = [] \<rparr>"

text \<open>\<open>xs.findIndex(p)\<close>; \<open>None\<close> stands for \<open>-1\<close>.\<close>

fun findIndex :: "('a \<Rightarrow> bool) \<Rightarrow> 'a list \<Rightarrow> nat option" where
  "findIndex p [] = None"
| "findIndex p (x # xs) =
     (if p x then Some 0 else (case findIndex p xs of None \<Rightarrow> None | Some i \<Rightarrow> Some (Suc i)))"

text \<open>The updater of the \<open>agent_sessions\<close> subscription.\<close>

definition merge_session :: "AgentSession \<Rightarrow> AgentSession list \<Rightarrow> AgentSession list" where
  "merge_session newSession prev =
     (case findIndex (\<lambda>s. sess_id s = sess_id newSession) prev of
        None \<Rightarrow> prev @ [newSession]
      | Some idx \<Rightarrow> prev[idx := newSession])"

text \<open>
  What reaches the page: a change-feed notification of one of the four tables, or one of
  the four results of \<open>fetchData\<close> (first fetch and the poll every two seconds), which
  is applied when its \<open>data\<close> is present. \<open>fetchData\<close> asks for the fifty newest events.
\<close>

datatype delivery =
    FeedRun SecurityRun
  | FeedSession AgentSession
  | FeedEvent RunEvent
  | FeedFinding Finding
  | FetchRun "SecurityRun option"
  | FetchSessions "AgentSession list option"
  | FetchEvents "RunEvent list option"
  | FetchFindings "Finding list option"

fun deliver :: "delivery \<Rightarrow> RunDetails \<Rightarrow> RunDetails" where
  "deliver (FeedRun r) st = st\<lparr>run := Some r\<rparr>"
| "deliver (FeedSession s) st = st\<lparr>rd_sessions := merge_session s (rd_sessions st)\<rparr>"
| "deliver (FeedEvent e) st = st\<lparr>rd_events := take 50 (e # rd_events st)\<rparr>"
| "deliver (FeedFinding f) st = st\<lparr>rd_findings := rd_findings st @ [f]\<rparr>"
| "deliver (FetchRun d) st = (case d of None \<Rightarrow> st | Some r \<Rightarrow> st\<lparr>run := Some r\<rparr>)"
| "deliver (FetchSessions d) st = (case d of None \<Rightarrow> st | Some ss \<Rightarrow> st\<lparr>rd_sessions := ss\<rparr>)"
| "deliver (FetchEvents d) st = (case d of None \<Rightarrow> st | Some es \<Rightarrow> st\<lparr>rd_events := es\<rparr>)"
| "deliver (FetchFindings d) st = (case d of None \<Rightarrow> st | Some fs \<Rightarrow> st\<lparr>rd_findings := fs\<rparr>)"

text \<open>The counters of the header.\<close>

definition totalFindings :: "RunDetails \<Rightarrow> nat" where
  "totalFindings st = length (rd_findings st)"

definition criticals :: "RunDetails \<Rightarrow> nat" where
  "criticals st = length (filter (\<lambda>f. f_severity f = ''CRITICAL'') (rd_findings st))"

definition highs :: "RunDetails \<Rightarrow> nat" where
  "highs st = length (filter (\<lambda>f. f_severity f = ''HIGH'') (rd_findings st))"

section \<open>The report view (ReportPage)\<close>

datatype severity = CRITICAL | HIGH | MEDIUM | LOW

record ReportFinding =
  rf_id :: string
  rf_severity :: severity
  title :: string
  evidence :: string
  recommendation :: string
  agent_type :: string
  created_at :: string
  what_is_wrong :: string
  why_it_matters :: string
  how_to_fix :: string
  references :: "string list"
  priority :: string
  effort :: string

text \<open>
  A rendered \<open>FindingDetail\<close> element: the finding and its \<open>index\<close> property. The page
  computes the index as \<open>findings.indexOf(f)\<close> for an element \<open>f\<close> of \<open>findings\<close>; the
  elements of the parsed response are separate objects, so this is the position of
  \<open>f\<close> in the list.
\<close>

record FindingDetail =
  finding :: ReportFinding
  index :: nat

definition indexed :: "'a list \<Rightarrow> (nat \<times> 'a) list" where
  "indexed xs = zip [0..<length xs] xs"

definition severity_group :: "ReportFinding list \<Rightarrow> severity \<Rightarrow> FindingDetail list" where
  "severity_group fs sev =
     map (\<lambda>(i, f). \<lparr> finding = f, index = i \<rparr>)
         (filter (\<lambda>(i, f). rf_severity f = sev) (indexed fs))"

text \<open>The children of the "Detailed Vulnerability Findings" block, in document order.\<close>

definition detailed_findings :: "ReportFinding list \<Rightarrow> FindingDetail list" where
  "detailed_findings fs = concat (map (severity_group fs) [CRITICAL, HIGH, MEDIUM, LOW])"

definition severity_rank :: "severity \<Rightarrow> nat" where
  "severity_rank s = (case s of CRITICAL \<Rightarrow> 0 | HIGH \<Rightarrow> 1 | MEDIUM \<Rightarrow> 2 | LOW \<Rightarrow> 3)"

section \<open>The orchestrator of the agent processes (AgentOrchestrator)\<close>








section \<open>The agent harness (SecurityAgent)\<close>

subsection \<open>Python strings and dicts\<close>

text \<open>
  A string is a list of characters, and a character is a byte: the texts of the model are
  ASCII texts. \<open>lower\<close> maps the letters A to Z to a to z and leaves every other
  character as it is, which is \<open>str.lower()\<close> on ASCII; what Python does with letters
  beyond ASCII (and its counting of code points in a slice) is outside the model.
\<close>

definition lower_char :: "char \<Rightarrow> char" where
  "lower_char c =
     (case map_of (zip ''ABCDEFGHIJKLMNOPQRSTUVWXYZ'' ''abcdefghijklmnopqrstuvwxyz'') c of
        Some l \<Rightarrow> l | None \<Rightarrow> c)"

definition lower :: "string \<Rightarrow> string" where
  "lower s = map lower_char s"

definition starts_with :: "string \<Rightarrow> string \<Rightarrow> bool" where
  "starts_with p s = (take (length p) s = p)"

text \<open>\<open>anywhere P s\<close>: some suffix of \<open>s\<close> (a position of \<open>s\<close>) satisfies \<open>P\<close>.\<close>

fun anywhere :: "(string \<Rightarrow> bool) \<Rightarrow> string \<Rightarrow> bool" where
  "anywhere P [] = P []"
| "anywhere P (c # cs) = (P (c # cs) \<or> anywhere P cs)"

text \<open>\<open>x in s\<close> for two strings: \<open>x\<close> is a substring of \<open>s\<close>.\<close>

definition substr :: "string \<Rightarrow> string \<Rightarrow> bool" where
  "substr x s = anywhere (starts_with x) s"

text \<open>\<open>any(x in s for x in xs)\<close> for a string \<open>s\<close>.\<close>

definition any_substr :: "string list \<Rightarrow> string \<Rightarrow> bool" where
  "any_substr xs s = list_ex (\<lambda>x. substr x s) xs"

datatype error = KeyError string | TypeError string | BrowserError string

text \<open>
  \<open>x in v\<close> for a string \<open>x\<close> and a value \<open>v\<close> of a decision: a substring test on a
  string, membership in a list, a key test on a dict, and a \<open>TypeError\<close> on a number, a
  boolean or \<open>None\<close>.
\<close>

fun py_in :: "string \<Rightarrow> json \<Rightarrow> error + bool" where
  "py_in x (JStr s) = Inr (substr x s)"
| "py_in x (JArr vs) = Inr (List.member vs (JStr x))"
| "py_in x (JObj kvs) = Inr (List.member (map fst kvs) x)"
| "py_in x v = Inl (TypeError ''argument is not iterable'')"

text \<open>\<open>any(x in v for x in xs)\<close>; it stops at the first hit and at the first error.\<close>

fun any_in :: "string list \<Rightarrow> json \<Rightarrow> error + bool" where
  "any_in [] v = Inr False"
| "any_in (x # xs) v =
     (case py_in x v of
        Inl e \<Rightarrow> Inl e
      | Inr b \<Rightarrow> if b then Inr True else any_in xs v)"

text \<open>\<open>v in s\<close> for a string \<open>s\<close>: the left operand must be a string.\<close>

fun in_str :: "json \<Rightarrow> string \<Rightarrow> error + bool" where
  "in_str (JStr x) s = Inr (substr x s)"
| "in_str v s = Inl (TypeError ''in <string> requires string as left operand'')"

type_synonym pydict = "(string \<times> json) list"

definition has_key :: "pydict \<Rightarrow> string \<Rightarrow> bool" where
  "has_key d k = List.member (map fst d) k"

text \<open>\<open>d[k]\<close>, \<open>d.get(k)\<close> and \<open>d.get(k, default)\<close>.\<close>

definition subscript :: "pydict \<Rightarrow> string \<Rightarrow> error + json" where
  "subscript d k = (case map_of d k of None \<Rightarrow> Inl (KeyError k) | Some v \<Rightarrow> Inr v)"

definition dict_get :: "pydict \<Rightarrow> string \<Rightarrow> json" where
  "dict_get d k = (case map_of d k of None \<Rightarrow> JNull | Some v \<Rightarrow> v)"

definition dict_get_default :: "pydict \<Rightarrow> string \<Rightarrow> json \<Rightarrow> json" where
  "dict_get_default d k dflt = (case map_of d k of None \<Rightarrow> dflt | Some v \<Rightarrow> v)"

definition ebind :: "error + 'a \<Rightarrow> ('a \<Rightarrow> error + 'b) \<Rightarrow> error + 'b" where
  "ebind m f = (case m of Inl e \<Rightarrow> Inl e | Inr x \<Rightarrow> f x)"

subsection \<open>The world outside the agent\<close>

text \<open>
  The state dict of \<open>capture_state\<close>.
\<close>

record page_state =
  st_url :: string
  st_title :: string
  st_html :: string
  st_cookies :: json
  st_localStorage :: json

text \<open>
  The browser, the language model and the JSON library are not part of the agent; they are
  the parameters of the model. \<open>'p\<close> is what a browser page can be. A read of the page
  returns a value or raises; an action returns the page after it and the message of the
  exception when it raised. \<open>messages_create\<close> is the model's answer text for the
  iteration, the role, the page state and the number of findings that make up the prompt,
  or \<open>None\<close> when the call (or reading the text of its first content block) raised.
  \<open>json_loads\<close> is applied to a text that begins and ends with a brace, so it returns a
  dict or raises (\<open>None\<close>).
\<close>

record 'p world =
  page_url :: "'p \<Rightarrow> string"
  page_title :: "'p \<Rightarrow> error + string"
  page_content :: "'p \<Rightarrow> error + string"
  page_cookies :: "'p \<Rightarrow> error + json"
  page_localStorage :: "'p \<Rightarrow> error + json"
  page_fill :: "json \<Rightarrow> json \<Rightarrow> 'p \<Rightarrow> 'p \<times> string option"
  page_click :: "json \<Rightarrow> 'p \<Rightarrow> 'p \<times> string option"
  page_goto :: "json \<Rightarrow> 'p \<Rightarrow> 'p \<times> string option"
  page_screenshot :: "'p \<Rightarrow> string option"
  messages_create :: "nat \<Rightarrow> string \<Rightarrow> page_state \<Rightarrow> nat \<Rightarrow> string option"
  json_loads :: "string \<Rightarrow> pydict option"

text \<open>The browser actions an agent can invoke.\<close>

datatype browser_call = Fill json json | Click json | Goto json

text \<open>
  The constants of an agent, and a message as \<open>send_event\<close> builds it (its time stamp is
  the clock at sending and is left out).
\<close>

record agent =
  agent_id :: int
  role :: string
  target_url :: string
  scan_id :: json

record message =
  m_type :: string
  m_agentId :: int
  m_role :: string
  m_scanId :: json
  m_data :: pydict

text \<open>
  What changes while an agent runs: its findings and iteration count, the page, the
  messages handed to \<open>send_event\<close> by the steps of the agent and the browser actions
  invoked, both in order. The callbacks \<open>log_request\<close> and \<open>log_response\<close> are run by the
  browser whenever the page has traffic; their \<open>network.request\<close> and
  \<open>network.response\<close> messages are interleaved with the agent's own and are not listed.
\<close>

record 'p harness =
  h_findings :: "json list"
  iteration_count :: nat
  h_page :: 'p
  h_sent :: "message list"
  h_calls :: "browser_call list"

definition send_event :: "agent \<Rightarrow> string \<Rightarrow> pydict \<Rightarrow> 'p harness \<Rightarrow> 'p harness" where
  "send_event a event_type d h =
     h\<lparr>h_sent := h_sent h @
          [\<lparr> m_type = event_type, m_agentId = agent_id a, m_role = role a,
             m_scanId = scan_id a, m_data = d \<rparr>]\<rparr>"

subsection \<open>One iteration: observe, decide, act, check\<close>

definition capture_state :: "'p world \<Rightarrow> 'p \<Rightarrow> error + page_state" where
  "capture_state w pg =
     ebind (page_title w pg) (\<lambda>t.
     ebind (page_content w pg) (\<lambda>c.
     ebind (page_cookies w pg) (\<lambda>ck.
     ebind (page_localStorage w pg) (\<lambda>ls.
       Inr \<lparr> st_url = page_url w pg, st_title = t, st_html = take 2000 c,
             st_cookies = ck, st_localStorage = ls \<rparr>))))"

text \<open>
  \<open>re.search(r'\{[^{}]*\}', text, re.DOTALL)\<close>: the leftmost opening brace whose next
  brace is a closing one, with the text between them. \<open>object_body\<close> reads from behind an
  opening brace up to the closing one.
\<close>

fun object_body :: "string \<Rightarrow> string option" where
  "object_body [] = None"
| "object_body (c # cs) =
     (if c = CHR ''}'' then Some []
      else if c = CHR ''{'' then None
      else (case object_body cs of None \<Rightarrow> None | Some b \<Rightarrow> Some (c # b)))"

fun re_search_object :: "string \<Rightarrow> string option" where
  "re_search_object [] = None"
| "re_search_object (c # cs) =
     (if c = CHR ''{'' then
        (case object_body cs of
           Some b \<Rightarrow> Some (''{'' @ b @ ''}'')
         | None \<Rightarrow> re_search_object cs)
      else re_search_object cs)"

definition required_fields :: "string list" where
  "required_fields = [''action'', ''selector'', ''value'', ''reasoning'']"

text \<open>
  \<open>get_next_action\<close> returns the decision or \<open>None\<close>; every exception inside it is caught
  and gives \<open>None\<close>.
\<close>

definition get_next_action ::
  "'p world \<Rightarrow> agent \<Rightarrow> page_state \<Rightarrow> 'p harness \<Rightarrow> pydict option \<times> 'p harness" where
  "get_next_action w a state h =
    (let h1 = send_event a ''agent.thinking''
                [(''status'', JStr ''Asking Claude for next action...'')] h
     in case messages_create w (iteration_count h) (role a) state (length (h_findings h)) of
          None \<Rightarrow> (None, h1)
        | Some response_text \<Rightarrow>
            (let h2 = send_event a ''agent.thought''
                        [(''thought'', JStr (take 200 response_text))] h1
             in case re_search_object response_text of
                  None \<Rightarrow> (None, h2)
                | Some json_match \<Rightarrow>
                    (case json_loads w json_match of
                       None \<Rightarrow> (None, h2)
                     | Some decision \<Rightarrow>
                         if list_all (has_key decision) required_fields
                         then (Some decision, h2) else (None, h2))))"

text \<open>
  \<open>execute_action\<close>: the four subscripts come first and raise \<open>KeyError\<close> outside the
  \<open>try\<close>; an exception of the browser action is caught and reported as \<open>agent.error\<close>.
\<close>

definition perform :: "'p world \<Rightarrow> agent \<Rightarrow> json \<Rightarrow> browser_call \<Rightarrow> 'p harness \<Rightarrow> 'p harness" where
  "perform w a action c h =
    (let (pg, exc) = (case c of
                        Fill sel v \<Rightarrow> page_fill w sel v (h_page h)
                      | Click sel \<Rightarrow> page_click w sel (h_page h)
                      | Goto v \<Rightarrow> page_goto w v (h_page h));
         h1 = h\<lparr>h_page := pg, h_calls := h_calls h @ [c]\<rparr>
     in case exc of
          None \<Rightarrow> h1
        | Some e \<Rightarrow> send_event a ''agent.error'' [(''action'', action), (''error'', JStr e)] h1)"

definition execute_action :: "'p world \<Rightarrow> agent \<Rightarrow> pydict \<Rightarrow> 'p harness \<Rightarrow> error + 'p harness" where
  "execute_action w a decision h =
     ebind (subscript decision ''action'') (\<lambda>action.
     ebind (subscript decision ''selector'') (\<lambda>selector.
     ebind (subscript decision ''value'') (\<lambda>val.
     ebind (subscript decision ''reasoning'') (\<lambda>reasoning.
       (let h1 = send_event a ''agent.action''
                   [(''action'', action), (''selector'', selector), (''value'', val),
                    (''reasoning'', reasoning)] h
        in Inr (if action = JStr ''fill'' then perform w a action (Fill selector val) h1
                else if action = JStr ''click'' then perform w a action (Click selector) h1
                else if action = JStr ''navigate'' then perform w a action (Goto val) h1
                else h1))))))"

definition sql_indicators :: "string list" where
  "sql_indicators =
     [''sql syntax'', ''mysql'', ''postgresql'', ''sqlite'', ''database error'',
      ''you have an error in your sql'', ''warning: mysql'', ''unclosed quotation mark'']"

definition sql_syntax :: "string list" where
  "sql_syntax = [[CHR 0x27], [CHR 0x22], ''--'', '';'', ''UNION'']"

definition auth_indicators :: "string list" where
  "auth_indicators = [''welcome'', ''dashboard'', ''logout'', ''admin panel'']"

definition xss_tags :: "string list" where
  "xss_tags = [''<script'', ''<img'', ''<svg'', ''onerror'', ''onload'']"

definition is_digit :: "char \<Rightarrow> bool" where
  "is_digit c = List.member ''0123456789'' c"

text \<open>\<open>re.search(r'/(users?|accounts?|profiles?)/\d+', url)\<close>.\<close>

definition id_path_here :: "string \<Rightarrow> bool" where
  "id_path_here s =
     list_ex (\<lambda>p. starts_with p s \<and> (case drop (length p) s of [] \<Rightarrow> False | c # _ \<Rightarrow> is_digit c))
       [''/user/'', ''/users/'', ''/account/'', ''/accounts/'', ''/profile/'', ''/profiles/'']"

definition re_search_id_path :: "string \<Rightarrow> bool" where
  "re_search_id_path url = anywhere id_path_here url"

text \<open>
  The role-specific checks on the page after the action, with \<open>current_content\<close> and
  \<open>current_url\<close> already read.
\<close>

definition check_role ::
  "string \<Rightarrow> pydict \<Rightarrow> page_state \<Rightarrow> string \<Rightarrow> string \<Rightarrow> error + json option" where
  "check_role r decision previous_state current_content current_url =
    (if r = ''sqli'' then
       (let payload = dict_get_default decision ''value'' (JStr [])
        in ebind (any_in sql_syntax payload) (\<lambda>syn.
           if syn then
             (if any_substr auth_indicators (lower current_content) \<and>
                 (st_url previous_state \<noteq> current_url \<or> \<not> substr ''login'' (lower current_url))
              then Inr (Some (JObj
                     [(''type'', JStr ''SQL Injection - Authentication Bypass''),
                      (''severity'', JStr ''CRITICAL''),
                      (''location'', JStr current_url),
                      (''field'', dict_get decision ''selector''),
                      (''payload'', payload),
                      (''evidence'', JStr ''Authentication bypassed with SQL injection payload''),
                      (''cwe'', JStr ''CWE-89''),
                      (''cvss_score'', JDec 98 1)]))
              else if any_substr sql_indicators (lower current_content)
              then Inr (Some (JObj
                     [(''type'', JStr ''SQL Injection - Error-Based''),
                      (''severity'', JStr ''HIGH''),
                      (''location'', JStr current_url),
                      (''field'', dict_get decision ''selector''),
                      (''payload'', payload),
                      (''evidence'', JStr (''Database error exposed: '' @ take 200 current_content)),
                      (''cwe'', JStr ''CWE-89''),
                      (''cvss_score'', JDec 75 1)]))
              else Inr None)
           else Inr None))
     else if r = ''xss'' then
       (let payload = dict_get_default decision ''value'' (JStr [])
        in ebind (any_in xss_tags payload) (\<lambda>tagged.
           if tagged then
             ebind (in_str payload current_content) (\<lambda>reflected.
               if reflected
               then Inr (Some (JObj
                      [(''type'', JStr ''Reflected XSS''),
                       (''severity'', JStr ''HIGH''),
                       (''location'', JStr current_url),
                       (''field'', dict_get decision ''selector''),
                       (''payload'', payload),
                       (''evidence'', JStr ''Payload reflected unsanitized in response''),
                       (''cwe'', JStr ''CWE-79''),
                       (''cvss_score'', JDec 71 1)]))
               else Inr None)
           else Inr None))
     else if r = ''auth'' then
       (if any_substr [''admin'', ''dashboard'', ''welcome'', ''logout''] (lower current_content) \<and>
           (substr ''admin'' (lower current_url) \<or> substr ''dashboard'' (lower current_url))
        then Inr (Some (JObj
               [(''type'', JStr ''Authentication Bypass''),
                (''severity'', JStr ''CRITICAL''),
                (''location'', JStr current_url),
                (''method'', dict_get decision ''reasoning''),
                (''evidence'', JStr ''Accessed privileged area without authentication''),
                (''cwe'', JStr ''CWE-287''),
                (''cvss_score'', JDec 91 1)]))
        else Inr None)
     else if r = ''idor'' then
       ebind (subscript decision ''action'') (\<lambda>action.
         if action = JStr ''navigate'' \<and>
            any_substr [''email'', ''phone'', ''address'', ''ssn'', ''credit card'']
              (lower current_content) \<and>
            re_search_id_path current_url
         then Inr (Some (JObj
                [(''type'', JStr ''Insecure Direct Object Reference (IDOR)''),
                 (''severity'', JStr ''HIGH''),
                 (''location'', JStr current_url),
                 (''evidence'', JStr ''Accessed user data by manipulating ID parameter''),
                 (''cwe'', JStr ''CWE-639''),
                 (''cvss_score'', JDec 81 1)]))
         else Inr None)
     else if r = ''csrf'' then
       ebind (subscript decision ''action'') (\<lambda>action.
         if action = JStr ''fill'' \<and>
            \<not> substr ''csrf'' (lower current_content) \<and> \<not> substr ''token'' (lower current_content)
         then Inr (Some (JObj
                [(''type'', JStr ''Missing CSRF Protection''),
                 (''severity'', JStr ''MEDIUM''),
                 (''location'', JStr current_url),
                 (''form'', dict_get decision ''selector''),
                 (''evidence'', JStr ''State-changing form lacks CSRF token''),
                 (''cwe'', JStr ''CWE-352''),
                 (''cvss_score'', JDec 65 1)]))
         else Inr None)
     else Inr None)"

definition check_for_vulnerability ::
  "'p world \<Rightarrow> agent \<Rightarrow> 'p \<Rightarrow> pydict \<Rightarrow> page_state \<Rightarrow> error + json option" where
  "check_for_vulnerability w a pg decision previous_state =
     ebind (page_content w pg) (\<lambda>current_content.
       check_role (role a) decision previous_state current_content (page_url w pg))"

definition take_screenshot :: "'p world \<Rightarrow> agent \<Rightarrow> string \<Rightarrow> 'p harness \<Rightarrow> 'p harness" where
  "take_screenshot w a label h =
     (case page_screenshot w (h_page h) of
        None \<Rightarrow> h
      | Some screenshot_b64 \<Rightarrow>
          send_event a ''agent.screenshot''
            [(''label'', JStr label), (''screenshot'', JStr screenshot_b64),
             (''url'', JStr (page_url w (h_page h)))] h)"

text \<open>The severity a finding carries.\<close>

definition severity_of :: "json \<Rightarrow> json option" where
  "severity_of f = jprop (Some f) ''severity''"

subsection \<open>The main loop (run)\<close>

definition iteration_body :: "'p world \<Rightarrow> agent \<Rightarrow> nat \<Rightarrow> 'p harness \<Rightarrow> error + 'p harness" where
  "iteration_body w a i h =
    (let h1 = h\<lparr>iteration_count := i + 1\<rparr>
     in ebind (capture_state w (h_page h1)) (\<lambda>state.
        (let (decision, h2) = get_next_action w a state h1
         in case decision of
              None \<Rightarrow> Inr h2
            | Some d \<Rightarrow>
                if d = [] then Inr h2
                else
                  (let h3 = send_event a ''agent.decision''
                              [(''iteration'', JNum (int (iteration_count h2))),
                               (''decision'', JObj d)] h2
                   in ebind (execute_action w a d h3) (\<lambda>h4.
                      ebind (check_for_vulnerability w a (h_page h4) d state) (\<lambda>vulnerability.
                        (let h5 = (case vulnerability of
                                     None \<Rightarrow> h4
                                   | Some v \<Rightarrow>
                                       if v = JObj [] then h4
                                       else send_event a ''vulnerability.found''
                                              [(''vulnerability'', v)]
                                              (h4\<lparr>h_findings := h_findings h4 @ [v]\<rparr>))
                         in Inr (take_screenshot w a
                                   (''iteration_'' @ show_nat (iteration_count h5)) h5))))))))"

text \<open>\<open>for iteration in xs: body\<close>, left by the first exception.\<close>

fun for_loop :: "(nat \<Rightarrow> 's \<Rightarrow> error + 's) \<Rightarrow> nat list \<Rightarrow> 's \<Rightarrow> error + 's" where
  "for_loop body [] h = Inr h"
| "for_loop body (i # is) h = (case body i h of Inl e \<Rightarrow> Inl e | Inr h' \<Rightarrow> for_loop body is h')"

text \<open>
  \<open>run\<close> on a fresh page: \<open>Inl\<close> is the exception that ends the agent, \<open>Inr\<close> the state
  after \<open>agent.complete\<close> was sent.
\<close>

definition run :: "'p world \<Rightarrow> agent \<Rightarrow> 'p \<Rightarrow> error + 'p harness" where
  "run w a new_page =
    (let h0 = send_event a ''agent.started''
                [(''role'', JStr (role a)), (''target'', JStr (target_url a))]
                \<lparr> h_findings = [], iteration_count = 0, h_page = new_page,
                  h_sent = [], h_calls = [] \<rparr>;
         (pg, exc) = page_goto w (JStr (target_url a)) (h_page h0);
         h1 = h0\<lparr>h_page := pg, h_calls := h_calls h0 @ [Goto (JStr (target_url a))]\<rparr>
     in case exc of
          Some e \<Rightarrow> Inl (BrowserError e)
        | None \<Rightarrow>
            ebind (for_loop (iteration_body w a) [0..<10] (take_screenshot w a ''initial_load'' h1))
              (\<lambda>h. Inr (send_event a ''agent.complete''
                          [(''findings'', JArr (h_findings h)),
                           (''iterations_completed'', JNum (int (iteration_count h)))] h)))"

text \<open>
  The relay of the orchestrator to the dashboards, \<open>{scanId, ...message, timestamp}\<close>:
  the fields of the message win over the scan id, the time stamp is the relay's clock.
\<close>

definition handleAgentMessage :: "string \<Rightarrow> json \<Rightarrow> message \<Rightarrow> AgentEvent" where
  "handleAgentMessage scan now m =
     \<lparr> ev_type = m_type m, agentId = m_agentId m, ev_role = m_role m,
       scanId = m_scanId m, data = m_data m, timestamp = now \<rparr>"

subsection \<open>A scripted world for examples\<close>

text \<open>
  A page is its URL and its content. Navigation goes to the given URL and shows the
  text \<open>page of <url>\<close>; filling and clicking leave the page alone; nothing raises. The
  model always answers with one navigation decision.
\<close>

record simple_page =
  sp_url :: string
  sp_content :: string

definition scripted_decision :: pydict where
  "scripted_decision =
     [(''action'', JStr ''navigate''), (''selector'', JStr []),
      (''value'', JStr ''https://evil.test/''), (''reasoning'', JStr ''look around'')]"

definition scripted_world :: "simple_page world" where
  "scripted_world =
     \<lparr> page_url = sp_url,
       page_title = (\<lambda>pg. Inr ''t''),
       page_content = (\<lambda>pg. Inr (sp_content pg)),
       page_cookies = (\<lambda>pg. Inr (JArr [])),
       page_localStorage = (\<lambda>pg. Inr (JArr [])),
       page_fill = (\<lambda>sel v pg. (pg, None)),
       page_click = (\<lambda>sel pg. (pg, None)),
       page_goto = (\<lambda>v pg. (case v of
                                JStr u \<Rightarrow> (\<lparr> sp_url = u, sp_content = ''page of '' @ u \<rparr>, None)
                              | _ \<Rightarrow> (pg, Some ''url must be a string''))),
       page_screenshot = (\<lambda>pg. Some ''png''),
       messages_create = (\<lambda>n r st k. Some ''{go}''),
       json_loads = (\<lambda>t. if t = ''{go}'' then Some scripted_decision else None) \<rparr>"

definition blank_page :: simple_page where
  "blank_page = \<lparr> sp_url = ''about:blank'', sp_content = [] \<rparr>"

definition sqli_agent :: agent where
  "sqli_agent = \<lparr> agent_id = 1, role = ''sqli'', target_url = ''https://shop.test/login'',
                  scan_id = JStr ''scan-1'' \<rparr>"

text \<open>The severity of the finding that a check reports, if it reports one.\<close>

definition reported_severity :: "error + json option \<Rightarrow> json option" where
  "reported_severity res = (case res of Inr (Some f) \<Rightarrow> severity_of f | _ \<Rightarrow> None)"

text \<open>The number of messages of one type among the messages sent.\<close>

definition count_type :: "string \<Rightarrow> message list \<Rightarrow> nat" where
  "count_type t ms = length (filter (\<lambda>m. m_type m = t) ms)"

text \<open>The same world with a model that answers in prose, without any JSON.\<close>

definition silent_world :: "simple_page world" where
  "silent_world = scripted_world\<lparr>messages_create := (\<lambda>n r st k. Some ''I would rather not.'')\<rparr>"

definition xss_agent :: agent where
  "xss_agent = \<lparr> agent_id = 2, role = ''xss'', target_url = ''http://t.test/'',
                 scan_id = JStr ''scan-1'' \<rparr>"

text \<open>An agent in its first iteration, on the target's login page.\<close>

definition on_target :: "simple_page harness" where
  "on_target =
     \<lparr> h_findings = [], iteration_count = 1,
       h_page = \<lparr> sp_url = ''https://shop.test/login'',
                  sp_content = ''page of https://shop.test/login'' \<rparr>,
       h_sent = [], h_calls = [] \<rparr>"

definition login_state :: page_state where
  "login_state = \<lparr> st_url = ''http://t.test/login'', st_title = ''Login'', st_html = ''<form>'',
                   st_cookies = JArr [], st_localStorage = JArr [] \<rparr>"

definition home_state :: page_state where
  "home_state = \<lparr> st_url = ''http://t.test/home'', st_title = ''Home'', st_html = ''<h1>Home</h1>'',
                  st_cookies = JArr [], st_localStorage = JArr [] \<rparr>"

definition quote_decision :: pydict where
  "quote_decision =
     [(''action'', JStr ''fill''), (''selector'', JStr ''#user''), (''value'', JStr [CHR 0x27]),
      (''reasoning'', JStr ''probe'')]"

definition semicolon_decision :: pydict where
  "semicolon_decision =
     [(''action'', JStr ''fill''), (''selector'', JStr ''#q''), (''value'', JStr '';''),
      (''reasoning'', JStr ''probe'')]"

definition script_decision :: pydict where
  "script_decision =
     [(''action'', JStr ''fill''), (''selector'', JStr ''#q''),
      (''value'', JStr ''<script>alert(1)</script>''), (''reasoning'', JStr ''probe'')]"


text \<open>Rows for the examples of the live view: one finding, and a log of fifty events.\<close>

definition sample_finding :: Finding where
  "sample_finding = \<lparr> f_id = ''f1'', f_severity = ''HIGH'', f_cols = [] \<rparr>"

definition numbered_event :: "nat \<Rightarrow> RunEvent" where
  "numbered_event n = \<lparr> message = ''event '' @ show_nat n, re_data = JNull, re_cols = [] \<rparr>"

definition full_log :: RunDetails where
  "full_log = RunDetails_init\<lparr>rd_events := map numbered_event (rev [0..<50])\<rparr>"


text \<open>Decisions of the XSS agent: a plain image, a script tag in capitals, another handler.\<close>

definition img_decision :: pydict where
  "img_decision =
     [(''action'', JStr ''fill''), (''selector'', JStr ''#q''),
      (''value'', JStr ''<img src=a.png>''), (''reasoning'', JStr ''probe'')]"

definition upper_script_decision :: pydict where
  "upper_script_decision =
     [(''action'', JStr ''fill''), (''selector'', JStr ''#q''),
      (''value'', JStr ''<SCRIPT>alert(1)</SCRIPT>''), (''reasoning'', JStr ''probe'')]"

definition onfocus_decision :: pydict where
  "onfocus_decision =
     [(''action'', JStr ''fill''), (''selector'', JStr ''#q''),
      (''value'', JStr ''<body onfocus=alert(1) autofocus>''), (''reasoning'', JStr ''probe'')]"

section \<open>Properties of the socket client\<close>

text \<open>
  Claim C9. When the socket opens, fails or closes, only the connected flag of the client
  state changes: the agent map, the event log, the finding list, the network-request log
  and the scan status are what they were, and the flag is set on open and cleared on
  error and on close.
\<close>

theorem socket_handlers_frame:
  "agents (onopen st) = agents st \<and> events (onopen st) = events st \<and>
   findings (onopen st) = findings st \<and> networkRequests (onopen st) = networkRequests st \<and>
   scanStatus (onopen st) = scanStatus st \<and> connected (onopen st) \<and>
   agents (onerror st) = agents st \<and> events (onerror st) = events st \<and>
   findings (onerror st) = findings st \<and> networkRequests (onerror st) = networkRequests st \<and>
   scanStatus (onerror st) = scanStatus st \<and> \<not> connected (onerror st) \<and>
   agents (onclose st) = agents st \<and> events (onclose st) = events st \<and>
   findings (onclose st) = findings st \<and> networkRequests (onclose st) = networkRequests st \<and>
   scanStatus (onclose st) = scanStatus st \<and> \<not> connected (onclose st)"
  by (simp add: onopen_def onerror_def onclose_def)

section \<open>Properties of the live view\<close>

lemma findIndex_append_new:
  "findIndex p xs = None \<Longrightarrow> p y \<Longrightarrow> findIndex p (xs @ [y]) = Some (length xs)"
  by (induction xs) (auto split: option.splits if_splits)

lemma findIndex_update:
  "findIndex p xs = Some i \<Longrightarrow> p y \<Longrightarrow> findIndex p (xs[i := y]) = Some i"
proof (induction xs arbitrary: i)
  case Nil
  then show ?case by simp
next
  case (Cons x xs)
  show ?case
  proof (cases "p x")
    case True
    with Cons.prems show ?thesis by simp
  next
    case False
    with Cons.prems obtain j where j: "findIndex p xs = Some j" "i = Suc j"
      by (auto split: option.splits)
    with Cons.IH [OF j(1) Cons.prems(2)] False show ?thesis by simp
  qed
qed

text \<open>A session update merges by identifier, so a second delivery changes nothing.\<close>

lemma merge_session_idempotent:
  "merge_session s (merge_session s ss) = merge_session s ss"
proof (cases "findIndex (\<lambda>x. sess_id x = sess_id s) ss")
  case None
  then have "findIndex (\<lambda>x. sess_id x = sess_id s) (ss @ [s]) = Some (length ss)"
    by (simp add: findIndex_append_new)
  with None show ?thesis by (simp add: merge_session_def)
next
  case (Some i)
  then have "findIndex (\<lambda>x. sess_id x = sess_id s) (ss[i := s]) = Some i"
    by (simp add: findIndex_update)
  with Some show ?thesis by (simp add: merge_session_def)
qed

lemma session_delivery_idempotent:
  "deliver (FeedSession s) (deliver (FeedSession s) st) = deliver (FeedSession s) st"
  by (simp add: merge_session_idempotent)

text \<open>
  Claim C2. Duplicate deliveries of one entity should leave the state of a single
  delivery. Sessions do (lemma above). A finding does not: the change feed appends it, so
  the same finding delivered twice by the feed, or once by a fetch and then by the feed,
  is listed twice and the header counts two vulnerabilities where one was found.
\<close>

theorem duplicate_finding_counted_twice:
  "totalFindings (deliver (FeedFinding sample_finding) RunDetails_init) = 1 \<and>
   totalFindings (deliver (FeedFinding sample_finding)
                   (deliver (FeedFinding sample_finding) RunDetails_init)) = 2 \<and>
   totalFindings (deliver (FeedFinding sample_finding)
                   (deliver (FetchFindings (Some [sample_finding])) RunDetails_init)) = 2"
  by (simp add: totalFindings_def RunDetails_init_def)

text \<open>
  Claim C8, as stated, fails for the event log of the live view: it holds the fifty newest
  events, and with fifty events in it the next event pushes the oldest one out.
\<close>

theorem event_log_drops_oldest:
  "List.member (rd_events full_log) (numbered_event 0) \<and>
   \<not> List.member (rd_events (deliver (FeedEvent (numbered_event 50)) full_log)) (numbered_event 0)"
  by code_simp

text \<open>
  Claim C8, amended. An event processed by the socket client is appended to its event log
  and leaves the finding list as a prefix of the new one. In the live view a finding from
  the change feed is appended to the finding list, and an event from the change feed is
  put in front of the newest forty-nine events of the log: the log is bounded to fifty and
  drops the oldest beyond that.
\<close>

theorem client_lists_additive:
  "events (handleEvent ev prev) = events prev @ [ev] \<and>
   take (length (findings prev)) (findings (handleEvent ev prev)) = findings prev \<and>
   rd_findings (deliver (FeedFinding f) st) = rd_findings st @ [f] \<and>
   rd_events (deliver (FeedEvent e) st) = e # take 49 (rd_events st)"
proof -
  have 1: "events (handleEvent ev prev) = events prev @ [ev]"
    by (simp add: handleEvent_def update_shared_def Let_def split: option.splits)
  have 2: "take (length (findings prev)) (findings (handleEvent ev prev)) = findings prev"
    by (simp add: handleEvent_def update_shared_def Let_def split: option.splits)
  have 3: "rd_events (deliver (FeedEvent e) st) = e # take 49 (rd_events st)"
    by (simp add: take_Cons')
  show ?thesis using 1 2 3 by simp
qed

section \<open>Properties of the report view\<close>

lemma indexed_filter_snd:
  "map snd (filter (\<lambda>(i, f). P f) (indexed xs)) = filter P xs"
proof -
  have "map snd (filter (\<lambda>(i, f). P f) (indexed xs)) = filter P (map snd (indexed xs))"
    by (simp add: filter_map comp_def case_prod_unfold)
  also have "map snd (indexed xs) = xs"
    by (simp add: indexed_def)
  finally show ?thesis .
qed

lemma severity_group_findings:
  "map finding (severity_group fs sev) = filter (\<lambda>f. rf_severity f = sev) fs"
proof -
  have "map finding (severity_group fs sev)
        = map snd (filter (\<lambda>(i, f). rf_severity f = sev) (indexed fs))"
    by (simp add: severity_group_def comp_def case_prod_unfold)
  then show ?thesis by (simp add: indexed_filter_snd)
qed

text \<open>
  Claim C10. The detailed findings of the report are the CRITICAL findings of the
  payload, then the HIGH, the MEDIUM and the LOW ones, each group in the order its
  findings have in the payload; so the rendered list is ordered by severity.
\<close>

theorem detailed_findings_grouped:
  "map finding (detailed_findings fs) =
     filter (\<lambda>f. rf_severity f = CRITICAL) fs @ filter (\<lambda>f. rf_severity f = HIGH) fs @
     filter (\<lambda>f. rf_severity f = MEDIUM) fs @ filter (\<lambda>f. rf_severity f = LOW) fs
   \<and> sorted_wrt (\<lambda>x y. severity_rank (rf_severity x) \<le> severity_rank (rf_severity y))
        (map finding (detailed_findings fs))"
proof -
  have eq: "map finding (detailed_findings fs) =
     filter (\<lambda>f. rf_severity f = CRITICAL) fs @ filter (\<lambda>f. rf_severity f = HIGH) fs @
     filter (\<lambda>f. rf_severity f = MEDIUM) fs @ filter (\<lambda>f. rf_severity f = LOW) fs"
    by (simp add: detailed_findings_def severity_group_findings)
  have grp: "\<And>sev. sorted_wrt (\<lambda>x y. severity_rank (rf_severity x) \<le> severity_rank (rf_severity y))
               (filter (\<lambda>f. rf_severity f = sev) fs)"
    by (rule sorted_wrt_mono_rel [where P = "\<lambda>x y. True"]) auto
  show ?thesis
    unfolding eq using grp
    by (auto simp: eq sorted_wrt_append severity_rank_def)
qed

section \<open>Properties of the orchestrator\<close>




section \<open>Properties of the agent harness\<close>

subsection \<open>Navigation\<close>

text \<open>
  Claim C1, as stated, fails for the harness: it has no domain guard. An agent whose
  target is \<open>https://shop.test/login\<close> and whose decision is to navigate to
  \<open>https://evil.test/\<close> calls the browser with that URL and ends up there; the only
  message it sends is \<open>agent.action\<close>.
\<close>

theorem offdomain_navigation_followed:
  "(case execute_action scripted_world sqli_agent scripted_decision on_target of
      Inl e \<Rightarrow> None
    | Inr h \<Rightarrow> Some (h_calls h, sp_url (h_page h), map m_type (h_sent h)))
   = Some ([Goto (JStr ''https://evil.test/'')], ''https://evil.test/'', [''agent.action''])"
  by code_simp

text \<open>
  Claim C1, amended. In an iteration of the harness whose decision is a navigation, the
  browser is sent to the decision's value as it is, whatever its host: the call is made,
  the page is the one the browser returns, an \<open>agent.action\<close> message is recorded before
  the call, and an \<open>agent.error\<close> message after it exactly when the browser raised.
\<close>

theorem navigate_executed_unchecked:
  assumes "subscript decision ''action'' = Inr (JStr ''navigate'')"
    and "subscript decision ''selector'' = Inr sel"
    and "subscript decision ''value'' = Inr v"
    and "subscript decision ''reasoning'' = Inr r"
  shows "\<exists>h'. execute_action w a decision h = Inr h' \<and>
           h_calls h' = h_calls h @ [Goto v] \<and>
           h_page h' = fst (page_goto w v (h_page h)) \<and>
           map m_type (h_sent h') =
             map m_type (h_sent h) @ ''agent.action'' #
               (case snd (page_goto w v (h_page h)) of None \<Rightarrow> [] | Some e \<Rightarrow> [''agent.error''])"
  using assms
  by (cases "page_goto w v (h_page h)")
     (auto simp: execute_action_def ebind_def perform_def send_event_def Let_def split: option.splits)

theorem navigate_executed_unchecked_witness:
  "\<exists>h'. execute_action scripted_world sqli_agent scripted_decision on_target = Inr h' \<and>
         h_calls h' = [Goto (JStr ''https://evil.test/'')] \<and>
         sp_url (h_page h') = ''https://evil.test/'' \<and>
         map m_type (h_sent h') = [''agent.action'']"
proof -
  have s: "subscript scripted_decision ''action'' = Inr (JStr ''navigate'')"
       "subscript scripted_decision ''selector'' = Inr (JStr [])"
       "subscript scripted_decision ''value'' = Inr (JStr ''https://evil.test/'')"
       "subscript scripted_decision ''reasoning'' = Inr (JStr ''look around'')"
    by (simp_all add: subscript_def scripted_decision_def)
  show ?thesis
    using navigate_executed_unchecked [OF s, of scripted_world sqli_agent on_target]
    by (auto simp add: scripted_world_def on_target_def)
qed

subsection \<open>Vulnerability checks\<close>

lemma any_in_JStr: "any_in xs (JStr s) = Inr (any_substr xs s)"
  by (induction xs) (auto simp: any_substr_def)

lemma any_in_cases:
  obtains e where "any_in xs v = Inl e" | b where "any_in xs v = Inr b"
  by (cases "any_in xs v") auto

lemma sqli_check_role:
  "(reported_severity (check_role ''sqli'' decision previous_state current_content current_url)
      = Some (JStr ''CRITICAL'')
    \<longleftrightarrow> any_in sql_syntax (dict_get_default decision ''value'' (JStr [])) = Inr True \<and>
         any_substr auth_indicators (lower current_content) \<and>
         (st_url previous_state \<noteq> current_url \<or> \<not> substr ''login'' (lower current_url)))
   \<and>
   (reported_severity (check_role ''sqli'' decision previous_state current_content current_url)
      = Some (JStr ''HIGH'')
    \<longleftrightarrow> any_in sql_syntax (dict_get_default decision ''value'' (JStr [])) = Inr True \<and>
         any_substr sql_indicators (lower current_content) \<and>
         \<not> (any_substr auth_indicators (lower current_content) \<and>
            (st_url previous_state \<noteq> current_url \<or> \<not> substr ''login'' (lower current_url))))"
proof (cases rule: any_in_cases [of sql_syntax "dict_get_default decision ''value'' (JStr [])"])
  case (1 e)
  then show ?thesis
    by (simp add: check_role_def reported_severity_def ebind_def Let_def)
next
  case (2 b)
  then show ?thesis
    by (cases b) (simp_all add: check_role_def reported_severity_def severity_of_def ebind_def Let_def)
qed

lemma xss_check_role:
  "reported_severity (check_role ''xss'' decision previous_state current_content current_url)
     = Some (JStr ''HIGH'')
   \<longleftrightarrow> (\<exists>s. dict_get_default decision ''value'' (JStr []) = JStr s \<and>
            any_substr xss_tags s \<and> substr s current_content)"
proof (cases "dict_get_default decision ''value'' (JStr [])")
  case (JStr s)
  then show ?thesis
    by (simp add: check_role_def reported_severity_def severity_of_def any_in_JStr ebind_def Let_def)
next
  case JNull
  then show ?thesis
    by (cases rule: any_in_cases [of xss_tags JNull])
       (auto simp: check_role_def reported_severity_def ebind_def Let_def)
next
  case (JBool b)
  then show ?thesis
    by (cases rule: any_in_cases [of xss_tags "JBool b"])
       (auto simp: check_role_def reported_severity_def ebind_def Let_def)
next
  case (JNum n)
  then show ?thesis
    by (cases rule: any_in_cases [of xss_tags "JNum n"])
       (auto simp: check_role_def reported_severity_def ebind_def Let_def)
next
  case (JDec m k)
  then show ?thesis
    by (cases rule: any_in_cases [of xss_tags "JDec m k"])
       (auto simp: check_role_def reported_severity_def ebind_def Let_def)
next
  case (JArr xs)
  then show ?thesis
    by (cases rule: any_in_cases [of xss_tags "JArr xs"])
       (auto simp: check_role_def reported_severity_def ebind_def Let_def)
next
  case (JObj kvs)
  then show ?thesis
    by (cases rule: any_in_cases [of xss_tags "JObj kvs"])
       (auto simp: check_role_def reported_severity_def ebind_def Let_def)
qed

lemma xss_reports_only_high:
  "check_role ''xss'' decision previous_state current_content current_url = Inr (Some f)
   \<Longrightarrow> severity_of f = Some (JStr ''HIGH'')"
  by (auto simp: check_role_def ebind_def Let_def severity_of_def split: sum.splits if_splits)

text \<open>
  Claim C5, as stated, fails. With a quote as payload and a page that shows a database
  error, the SQL-injection agent reports no HIGH finding when the page also says
  "welcome" and the URL has changed: it reports the CRITICAL one. And it reports the
  CRITICAL finding for the payload \<open>;\<close>, which is no tautology, on a home page that was
  the home page before the action, where no login page is involved.
\<close>

theorem sqli_checks_differ:
  "reported_severity
     (check_for_vulnerability scripted_world sqli_agent
        \<lparr> sp_url = ''http://t.test/home'',
          sp_content = ''Welcome! You have an error in your SQL syntax'' \<rparr>
        quote_decision login_state)
     = Some (JStr ''CRITICAL'') \<and>
   reported_severity
     (check_for_vulnerability scripted_world sqli_agent
        \<lparr> sp_url = ''http://t.test/home'', sp_content = ''Welcome to our shop'' \<rparr>
        semicolon_decision home_state)
     = Some (JStr ''CRITICAL'')"
  by code_simp

text \<open>
  Claim C5, amended. For every action of the SQL-injection agent whose page content can
  be read: the CRITICAL authentication-bypass finding is reported exactly when the payload
  contains one of the markers \<open>'\<close>, \<open>"\<close>, \<open>--\<close>, \<open>;\<close>, \<open>UNION\<close>, the lower-cased content
  contains one of "welcome", "dashboard", "logout", "admin panel", and the URL differs
  from the one before the action or, lower-cased, does not contain "login"; the HIGH
  error-based finding is reported exactly when the payload contains one of the markers,
  the lower-cased content contains a database-error signature, and the condition of the
  CRITICAL finding does not hold.
\<close>

theorem sqli_finding_conditions:
  assumes "role a = ''sqli''" and "page_content w pg = Inr current_content"
  shows
  "(reported_severity (check_for_vulnerability w a pg decision previous_state)
      = Some (JStr ''CRITICAL'')
    \<longleftrightarrow> any_in sql_syntax (dict_get_default decision ''value'' (JStr [])) = Inr True \<and>
         any_substr auth_indicators (lower current_content) \<and>
         (st_url previous_state \<noteq> page_url w pg \<or> \<not> substr ''login'' (lower (page_url w pg))))
   \<and>
   (reported_severity (check_for_vulnerability w a pg decision previous_state)
      = Some (JStr ''HIGH'')
    \<longleftrightarrow> any_in sql_syntax (dict_get_default decision ''value'' (JStr [])) = Inr True \<and>
         any_substr sql_indicators (lower current_content) \<and>
         \<not> (any_substr auth_indicators (lower current_content) \<and>
            (st_url previous_state \<noteq> page_url w pg \<or> \<not> substr ''login'' (lower (page_url w pg)))))"
  using assms sqli_check_role [of decision previous_state current_content "page_url w pg"]
  by (simp add: check_for_vulnerability_def ebind_def)

theorem sqli_finding_conditions_witness:
  "role sqli_agent = ''sqli'' \<and>
   page_content scripted_world
     \<lparr> sp_url = ''http://t.test/login'', sp_content = ''You have an error in your SQL syntax'' \<rparr>
     = Inr ''You have an error in your SQL syntax'' \<and>
   reported_severity
     (check_for_vulnerability scripted_world sqli_agent
        \<lparr> sp_url = ''http://t.test/login'', sp_content = ''You have an error in your SQL syntax'' \<rparr>
        quote_decision login_state)
     = Some (JStr ''HIGH'')"
proof -
  let ?pg = "\<lparr> sp_url = ''http://t.test/login'',
               sp_content = ''You have an error in your SQL syntax'' \<rparr>"
  have r: "role sqli_agent = ''sqli''"
    by (simp add: sqli_agent_def)
  have c: "page_content scripted_world ?pg = Inr ''You have an error in your SQL syntax''"
    by (simp add: scripted_world_def)
  have "any_in sql_syntax (dict_get_default quote_decision ''value'' (JStr [])) = Inr True \<and>
        any_substr sql_indicators (lower ''You have an error in your SQL syntax'') \<and>
        \<not> (any_substr auth_indicators (lower ''You have an error in your SQL syntax'') \<and>
           (st_url login_state \<noteq> page_url scripted_world ?pg \<or>
            \<not> substr ''login'' (lower (page_url scripted_world ?pg))))"
    by code_simp
  then have "reported_severity
               (check_for_vulnerability scripted_world sqli_agent ?pg quote_decision login_state)
             = Some (JStr ''HIGH'')"
    using sqli_finding_conditions [OF r c, of quote_decision login_state] by blast
  with r c show ?thesis by simp
qed

text \<open>
  Claim C6, as stated, fails in both directions. The payload \<open><img src=a.png>\<close> holds
  neither a script nor an event handler, and reflected verbatim it gives a HIGH finding.
  The payloads \<open><SCRIPT>alert(1)</SCRIPT>\<close> and \<open><body onfocus=alert(1) autofocus>\<close> hold
  a script and an event handler, and reflected verbatim they give no finding: the agent
  looks for five fixed markers, in lower case.
\<close>

theorem xss_markers_differ:
  "reported_severity
     (check_for_vulnerability scripted_world xss_agent
        \<lparr> sp_url = ''http://t.test/s'', sp_content = ''<p><img src=a.png></p>'' \<rparr>
        img_decision home_state)
     = Some (JStr ''HIGH'') \<and>
   check_for_vulnerability scripted_world xss_agent
        \<lparr> sp_url = ''http://t.test/s'', sp_content = ''<p><SCRIPT>alert(1)</SCRIPT></p>'' \<rparr>
        upper_script_decision home_state
     = Inr None \<and>
   check_for_vulnerability scripted_world xss_agent
        \<lparr> sp_url = ''http://t.test/s'', sp_content = ''<body onfocus=alert(1) autofocus>'' \<rparr>
        onfocus_decision home_state
     = Inr None"
  by code_simp

text \<open>
  Claim C6, amended. For every action of the XSS agent whose page content can be read, a
  finding is reported, and it is a HIGH one, if and only if the payload is a text that
  contains, in exactly this spelling, one of the five markers \<open><script\<close>, \<open><img\<close>,
  \<open><svg\<close>, \<open>onerror\<close>, \<open>onload\<close>, and occurs verbatim in the content of the page after
  the action.
\<close>

theorem xss_finding_iff:
  assumes "role a = ''xss''" and "page_content w pg = Inr current_content"
  shows
  "((\<exists>f. check_for_vulnerability w a pg decision previous_state = Inr (Some f))
    \<longleftrightarrow> (\<exists>s. dict_get_default decision ''value'' (JStr []) = JStr s \<and>
             any_substr xss_tags s \<and> substr s current_content))
   \<and>
   (reported_severity (check_for_vulnerability w a pg decision previous_state) = Some (JStr ''HIGH'')
    \<longleftrightarrow> (\<exists>s. dict_get_default decision ''value'' (JStr []) = JStr s \<and>
             any_substr xss_tags s \<and> substr s current_content))"
proof -
  have eq: "check_for_vulnerability w a pg decision previous_state
            = check_role ''xss'' decision previous_state current_content (page_url w pg)"
    using assms by (simp add: check_for_vulnerability_def ebind_def)
  have hi: "reported_severity (check_for_vulnerability w a pg decision previous_state)
              = Some (JStr ''HIGH'')
            \<longleftrightarrow> (\<exists>s. dict_get_default decision ''value'' (JStr []) = JStr s \<and>
                     any_substr xss_tags s \<and> substr s current_content)"
    unfolding eq by (rule xss_check_role)
  have "(\<exists>f. check_for_vulnerability w a pg decision previous_state = Inr (Some f))
        \<longleftrightarrow> reported_severity (check_for_vulnerability w a pg decision previous_state)
              = Some (JStr ''HIGH'')"
    unfolding eq
    by (auto simp: reported_severity_def dest: xss_reports_only_high split: sum.splits option.splits)
  with hi show ?thesis by simp
qed

theorem xss_finding_iff_witness:
  "role xss_agent = ''xss'' \<and>
   page_content scripted_world
     \<lparr> sp_url = ''http://t.test/s'', sp_content = ''<p><script>alert(1)</script></p>'' \<rparr>
     = Inr ''<p><script>alert(1)</script></p>'' \<and>
   reported_severity
     (check_for_vulnerability scripted_world xss_agent
        \<lparr> sp_url = ''http://t.test/s'', sp_content = ''<p><script>alert(1)</script></p>'' \<rparr>
        script_decision home_state)
     = Some (JStr ''HIGH'')"
proof -
  let ?pg = "\<lparr> sp_url = ''http://t.test/s'', sp_content = ''<p><script>alert(1)</script></p>'' \<rparr>"
  have r: "role xss_agent = ''xss''"
    by (simp add: xss_agent_def)
  have c: "page_content scripted_world ?pg = Inr ''<p><script>alert(1)</script></p>''"
    by (simp add: scripted_world_def)
  have "dict_get_default script_decision ''value'' (JStr []) = JStr ''<script>alert(1)</script>'' \<and>
        any_substr xss_tags ''<script>alert(1)</script>'' \<and>
        substr ''<script>alert(1)</script>'' ''<p><script>alert(1)</script></p>''"
    by code_simp
  then have "reported_severity
               (check_for_vulnerability scripted_world xss_agent ?pg script_decision home_state)
             = Some (JStr ''HIGH'')"
    using xss_finding_iff [OF r c, of script_decision home_state] by blast
  with r c show ?thesis by simp
qed

subsection \<open>Invalid decisions\<close>

lemma get_next_action_invalid:
  assumes "messages_create w (iteration_count h) (role a) state (length (h_findings h)) = Some text"
    and "re_search_object text = None \<or>
         (\<exists>m. re_search_object text = Some m \<and>
              (json_loads w m = None \<or>
               (\<exists>d. json_loads w m = Some d \<and> (\<exists>f\<in>set required_fields. \<not> has_key d f))))"
  shows "get_next_action w a state h =
           (None, send_event a ''agent.thought'' [(''thought'', JStr (take 200 text))]
                    (send_event a ''agent.thinking''
                       [(''status'', JStr ''Asking Claude for next action...'')] h))"
  using assms
  by (auto simp: get_next_action_def Let_def send_event_def list_all_iff split: option.splits)

text \<open>
  Claim C7. Take an iteration in which the page state was captured and the model
  answered with a text. If the text holds no JSON object, or the object found in it does
  not parse, or the parsed object lacks one of the fields action, selector, value,
  reasoning, then the iteration ends without an exception and without a browser action:
  no call is made, the page and the findings are as before, only the \<open>agent.thinking\<close> and
  \<open>agent.thought\<close> messages were sent, and the loop goes on with the next iteration.
\<close>

theorem invalid_response_skipped:
  assumes "capture_state w (h_page h) = Inr state"
    and "messages_create w (Suc i) (role a) state (length (h_findings h)) = Some text"
    and "re_search_object text = None \<or>
         (\<exists>m. re_search_object text = Some m \<and>
              (json_loads w m = None \<or>
               (\<exists>d. json_loads w m = Some d \<and> (\<exists>f\<in>set required_fields. \<not> has_key d f))))"
  shows "\<exists>h'. iteration_body w a i h = Inr h' \<and>
           h_calls h' = h_calls h \<and> h_page h' = h_page h \<and> h_findings h' = h_findings h \<and>
           iteration_count h' = Suc i \<and>
           map m_type (h_sent h') = map m_type (h_sent h) @ [''agent.thinking'', ''agent.thought''] \<and>
           for_loop (iteration_body w a) (i # rest) h = for_loop (iteration_body w a) rest h'"
proof -
  let ?h1 = "h\<lparr>iteration_count := i + 1\<rparr>"
  have g: "get_next_action w a state ?h1 =
           (None, send_event a ''agent.thought'' [(''thought'', JStr (take 200 text))]
                    (send_event a ''agent.thinking''
                       [(''status'', JStr ''Asking Claude for next action...'')] ?h1))"
    using assms(2,3) by (intro get_next_action_invalid) simp_all
  have "iteration_body w a i h =
          Inr (send_event a ''agent.thought'' [(''thought'', JStr (take 200 text))]
                    (send_event a ''agent.thinking''
                       [(''status'', JStr ''Asking Claude for next action...'')] ?h1))"
    using assms(1) g by (simp add: iteration_body_def ebind_def Let_def)
  then show ?thesis by (simp add: send_event_def)
qed

theorem invalid_response_skipped_witness:
  "\<exists>h'. iteration_body silent_world sqli_agent 0 on_target = Inr h' \<and>
         h_calls h' = [] \<and> h_page h' = h_page on_target \<and> iteration_count h' = 1 \<and>
         map m_type (h_sent h') = [''agent.thinking'', ''agent.thought'']"
proof -
  have 1: "capture_state silent_world (h_page on_target) =
             Inr \<lparr> st_url = ''https://shop.test/login'', st_title = ''t'',
                   st_html = ''page of https://shop.test/login'',
                   st_cookies = JArr [], st_localStorage = JArr [] \<rparr>"
    by (simp add: capture_state_def silent_world_def scripted_world_def on_target_def ebind_def)
  have 2: "messages_create silent_world (Suc 0) (role sqli_agent)
             \<lparr> st_url = ''https://shop.test/login'', st_title = ''t'',
               st_html = ''page of https://shop.test/login'',
               st_cookies = JArr [], st_localStorage = JArr [] \<rparr>
             (length (h_findings on_target)) = Some ''I would rather not.''"
    by (simp add: silent_world_def)
  have 3: "re_search_object ''I would rather not.'' = None"
    by simp
  show ?thesis
    using invalid_response_skipped [OF 1 2 disjI1 [OF 3], of "[]"]
    by (auto simp: on_target_def)
qed

subsection \<open>The number of iterations\<close>

lemma send_event_counts:
  "iteration_count (send_event a t d h) = iteration_count h \<and>
   count_type u (h_sent (send_event a t d h)) = count_type u (h_sent h) + (if t = u then 1 else 0)"
  by (simp add: send_event_def count_type_def)

lemma get_next_action_counts:
  "get_next_action w a st h = (d, h') \<Longrightarrow>
     iteration_count h' = iteration_count h \<and>
     count_type ''agent.thinking'' (h_sent h') = Suc (count_type ''agent.thinking'' (h_sent h)) \<and>
     count_type ''agent.iteration'' (h_sent h') = count_type ''agent.iteration'' (h_sent h)"
  by (auto simp: get_next_action_def Let_def send_event_counts split: option.splits if_splits)

lemma perform_counts:
  "iteration_count (perform w a act c h) = iteration_count h \<and>
   count_type ''agent.thinking'' (h_sent (perform w a act c h)) = count_type ''agent.thinking'' (h_sent h) \<and>
   count_type ''agent.iteration'' (h_sent (perform w a act c h)) = count_type ''agent.iteration'' (h_sent h)"
  by (auto simp: perform_def Let_def send_event_counts split: option.splits prod.splits)

lemma execute_action_counts:
  "execute_action w a d h = Inr h' \<Longrightarrow>
     iteration_count h' = iteration_count h \<and>
     count_type ''agent.thinking'' (h_sent h') = count_type ''agent.thinking'' (h_sent h) \<and>
     count_type ''agent.iteration'' (h_sent h') = count_type ''agent.iteration'' (h_sent h)"
  by (auto simp: execute_action_def ebind_def Let_def send_event_counts perform_counts
           split: sum.splits if_splits)

lemma take_screenshot_counts:
  "iteration_count (take_screenshot w a l h) = iteration_count h \<and>
   count_type ''agent.thinking'' (h_sent (take_screenshot w a l h)) = count_type ''agent.thinking'' (h_sent h) \<and>
   count_type ''agent.iteration'' (h_sent (take_screenshot w a l h)) = count_type ''agent.iteration'' (h_sent h)"
  by (simp add: take_screenshot_def send_event_counts split: option.splits)

lemma iteration_body_counts:
  assumes "iteration_body w a i h = Inr h'"
  shows "iteration_count h' = Suc i \<and>
         count_type ''agent.thinking'' (h_sent h') = Suc (count_type ''agent.thinking'' (h_sent h)) \<and>
         count_type ''agent.iteration'' (h_sent h') = count_type ''agent.iteration'' (h_sent h)"
proof -
  let ?h1 = "h\<lparr>iteration_count := i + 1\<rparr>"
  from assms obtain state where st: "capture_state w (h_page ?h1) = Inr state"
    by (auto simp: iteration_body_def ebind_def Let_def split: sum.splits)
  obtain d h2 where g: "get_next_action w a state ?h1 = (d, h2)"
    by (cases "get_next_action w a state ?h1")
  from get_next_action_counts [OF g]
  have c2: "iteration_count h2 = Suc i"
       "count_type ''agent.thinking'' (h_sent h2) = Suc (count_type ''agent.thinking'' (h_sent h))"
       "count_type ''agent.iteration'' (h_sent h2) = count_type ''agent.iteration'' (h_sent h)"
    by simp_all
  show ?thesis
  proof (cases "d = None \<or> d = Some []")
    case True
    with assms st g have "h' = h2"
      by (auto simp: iteration_body_def ebind_def Let_def)
    with c2 show ?thesis by simp
  next
    case False
    then obtain dec where d: "d = Some dec" "dec \<noteq> []" by auto
    let ?h3 = "send_event a ''agent.decision''
                 [(''iteration'', JNum (int (iteration_count h2))), (''decision'', JObj dec)] h2"
    from assms st g d obtain h4 v where
      e: "execute_action w a dec ?h3 = Inr h4" and
      h': "h' = take_screenshot w a (''iteration_'' @ show_nat (iteration_count
                  (case v of None \<Rightarrow> h4
                   | Some x \<Rightarrow> if x = JObj [] then h4
                              else send_event a ''vulnerability.found'' [(''vulnerability'', x)]
                                     (h4\<lparr>h_findings := h_findings h4 @ [x]\<rparr>))))
                 (case v of None \<Rightarrow> h4
                   | Some x \<Rightarrow> if x = JObj [] then h4
                              else send_event a ''vulnerability.found'' [(''vulnerability'', x)]
                                     (h4\<lparr>h_findings := h_findings h4 @ [x]\<rparr>))"
      by (auto simp: iteration_body_def ebind_def Let_def split: sum.splits)
    from execute_action_counts [OF e] c2
    have c4: "iteration_count h4 = Suc i"
       "count_type ''agent.thinking'' (h_sent h4) = Suc (count_type ''agent.thinking'' (h_sent h))"
       "count_type ''agent.iteration'' (h_sent h4) = count_type ''agent.iteration'' (h_sent h)"
      by (simp_all add: send_event_counts)
    show ?thesis
      unfolding h' using c4
      by (simp add: take_screenshot_counts send_event_counts split: option.splits)
  qed
qed

lemma for_loop_counts:
  "for_loop (iteration_body w a) js h = Inr h' \<Longrightarrow>
     count_type ''agent.thinking'' (h_sent h') = count_type ''agent.thinking'' (h_sent h) + length js \<and>
     count_type ''agent.iteration'' (h_sent h') = count_type ''agent.iteration'' (h_sent h) \<and>
     iteration_count h' = (if js = [] then iteration_count h else Suc (last js))"
proof (induction js arbitrary: h)
  case Nil
  then show ?case by simp
next
  case (Cons j js)
  from Cons.prems obtain h1 where b: "iteration_body w a j h = Inr h1"
    and r: "for_loop (iteration_body w a) js h1 = Inr h'"
    by (auto split: sum.splits)
  from iteration_body_counts [OF b] Cons.IH [OF r] show ?case by simp
qed

text \<open>
  A run that ends without an exception has gone through the loop body ten times: it asked
  the model ten times, its iteration count is ten, and its last message is
  \<open>agent.complete\<close> with ten completed iterations. It never sends \<open>agent.iteration\<close>.
\<close>

lemma run_ten_iterations:
  assumes "run w a new_page = Inr h"
  shows "iteration_count h = 10 \<and> count_type ''agent.thinking'' (h_sent h) = 10 \<and>
         count_type ''agent.iteration'' (h_sent h) = 0 \<and>
         m_type (last (h_sent h)) = ''agent.complete'' \<and>
         map_of (m_data (last (h_sent h))) ''iterations_completed'' = Some (JNum 10)"
proof -
  let ?h0 = "send_event a ''agent.started''
                [(''role'', JStr (role a)), (''target'', JStr (target_url a))]
                \<lparr> h_findings = [], iteration_count = 0, h_page = new_page,
                  h_sent = [], h_calls = [] \<rparr>"
  obtain pg exc where go: "page_goto w (JStr (target_url a)) (h_page ?h0) = (pg, exc)"
    by (cases "page_goto w (JStr (target_url a)) (h_page ?h0)")
  let ?h1 = "?h0\<lparr>h_page := pg, h_calls := h_calls ?h0 @ [Goto (JStr (target_url a))]\<rparr>"
  let ?h2 = "take_screenshot w a ''initial_load'' ?h1"
  from assms go obtain hl where
    l: "for_loop (iteration_body w a) [0..<10] ?h2 = Inr hl" and
    h: "h = send_event a ''agent.complete''
              [(''findings'', JArr (h_findings hl)),
               (''iterations_completed'', JNum (int (iteration_count hl)))] hl"
    by (auto simp: run_def Let_def ebind_def split: option.splits sum.splits)
  have c0: "count_type ''agent.thinking'' (h_sent ?h2) = 0"
           "count_type ''agent.iteration'' (h_sent ?h2) = 0"
    by (simp_all add: take_screenshot_counts) (simp_all add: send_event_def count_type_def)
  from for_loop_counts [OF l] c0
  have "count_type ''agent.thinking'' (h_sent hl) = 10" "iteration_count hl = 10"
       "count_type ''agent.iteration'' (h_sent hl) = 0"
    by simp_all
  then show ?thesis
    unfolding h by (simp add: send_event_counts) (simp add: send_event_def)
qed

text \<open>
  On the dashboard only an \<open>agent.iteration\<close> event writes the total of an agent's
  counter; every agent starts with a total of twenty.
\<close>

lemma handleEvent_total:
  assumes "ev_type ev \<noteq> ''agent.iteration''" and "agents (handleEvent ev st) k = Some ag'"
  shows "\<exists>ag. agents st k = Some ag \<and> totalIterations ag' = totalIterations ag"
  using assms
  by (auto simp: handleEvent_def update_shared_def update_agent_def Let_def
           split: option.splits if_splits)

lemma fold_handleEvent_total:
  "list_all (\<lambda>ev. ev_type ev \<noteq> ''agent.iteration'') evs \<Longrightarrow>
   agents (fold handleEvent evs st) k = Some ag' \<Longrightarrow>
   \<exists>ag. agents st k = Some ag \<and> totalIterations ag' = totalIterations ag"
proof (induction evs arbitrary: st)
  case Nil
  then show ?case by simp
next
  case (Cons ev evs)
  from Cons.prems have "list_all (\<lambda>ev. ev_type ev \<noteq> ''agent.iteration'') evs"
    and t: "ev_type ev \<noteq> ''agent.iteration''"
    and "agents (fold handleEvent evs (handleEvent ev st)) k = Some ag'"
    by simp_all
  with Cons.IH obtain ag1 where 1: "agents (handleEvent ev st) k = Some ag1"
    and 2: "totalIterations ag' = totalIterations ag1"
    by blast
  from handleEvent_total [OF t 1] 2 show ?case by auto
qed

lemma defaultAgents_total:
  "agents initial_state k = Some ag \<Longrightarrow> totalIterations ag = 20"
  by (auto simp: initial_state_def defaultAgents_def roles_def default_agent_def split: if_splits)

lemma count_type_zero: "count_type t ms = 0 \<longleftrightarrow> list_all (\<lambda>m. m_type m \<noteq> t) ms"
  by (induction ms) (auto simp: count_type_def)

text \<open>
  So whatever the browser and the model do, the dashboard that follows a completed run of
  the harness shows every counter out of twenty.
\<close>

lemma dashboard_total_after_run:
  assumes "run w a new_page = Inr h"
    and "agents (fold handleEvent (map (handleAgentMessage scan now) (h_sent h)) initial_state) k
           = Some ag"
  shows "totalIterations ag = 20"
proof -
  from run_ten_iterations [OF assms(1)]
  have "list_all (\<lambda>m. m_type m \<noteq> ''agent.iteration'') (h_sent h)"
    by (simp add: count_type_zero)
  then have "list_all (\<lambda>ev. ev_type ev \<noteq> ''agent.iteration'')
               (map (handleAgentMessage scan now) (h_sent h))"
    by (simp add: list_all_iff handleAgentMessage_def)
  from fold_handleEvent_total [OF this assms(2)] defaultAgents_total
  show ?thesis by auto
qed

text \<open>
  Claim C4. A run of the harness that does not abort goes through ten iterations before
  \<open>agent.complete\<close>, and the dashboard should show the counter out of ten. The run below
  does its ten iterations, and the dashboard that received its messages shows the counter
  of agent 1 as \<open>10/20\<close>: the agents start with a total of twenty, and the harness never
  sends the \<open>agent.iteration\<close> event that would write another total.
\<close>

theorem dashboard_counter_total_twenty:
  "(case run scripted_world sqli_agent blank_page of
      Inl e \<Rightarrow> None
    | Inr h \<Rightarrow>
        Some (iteration_count h, count_type ''agent.thinking'' (h_sent h),
              m_type (last (h_sent h)),
              map_option iteration_counter
                (agents (fold handleEvent (map (handleAgentMessage ''scan-1'' JNull) (h_sent h))
                          initial_state) 1)))
   = Some (10, 10, ''agent.complete'', Some ''10/20'')"
  by code_simp

end
